theory Spec2Isabelle
  imports Main
begin

section \<open>Go strings and the standard-library helpers of cli/scripts.go\<close>

text \<open>
  A Go string is a sequence of bytes; it is modelled as \<open>string\<close> (a \<open>char list\<close>).
  An \<open>error\<close> value is modelled by its message, and a nil error by \<open>None\<close>.
\<close>

type_synonym err = string

text \<open>
  \<^verbatim>\<open>strings.HasPrefix(s, prefix)\<close> is
  \<^verbatim>\<open>len(s) >= len(prefix) && s[0:len(prefix)] == prefix\<close>:
  the first argument is the string that is tested, the second the prefix.
\<close>

definition HasPrefix :: "string \<Rightarrow> string \<Rightarrow> bool" where
  "HasPrefix s pre = (length s \<ge> length pre \<and> take (length pre) s = pre)"

text \<open>
  \<^verbatim>\<open>strings.Split(s, sep)\<close> for a one-byte separator: the fields between the
  separators, in order; the empty string gives one empty field.
\<close>

fun Split :: "string \<Rightarrow> char \<Rightarrow> string list" where
  "Split [] c = [[]]"
| "Split (x # xs) c =
     (if x = c then [] # Split xs c
      else (case Split xs c of
              [] \<Rightarrow> [[x]]
            | y # ys \<Rightarrow> (x # y) # ys))"

text \<open>
  A function either returns or panics. \<^verbatim>\<open>name[2:]\<close> panics when the string has
  fewer than two bytes, and \<^verbatim>\<open>getBasePath\<close> panics when the working directory
  cannot be read.
\<close>

datatype 'a outcome = Return 'a | Panic string

section \<open>Flag names\<close>

text \<open>The one field of \<^verbatim>\<open>subcommand.Flag\<close> that the code reads.\<close>

record Flag =
  Long :: string

definition commonFlags :: "string list" where
  "commonFlags = [''--output'', ''--zip'', ''--nicename'', ''--priority'', ''--quiet'',
                  ''--persistent'', ''--background'']"

definition flagsToString :: "Flag list \<Rightarrow> string list" where
  "flagsToString flags = map Long flags"

text \<open>
  The loop of \<^verbatim>\<open>getFlagName\<close> returns \<^verbatim>\<open>prefix + name\<close> at the first
  element of \<^verbatim>\<open>allFlags\<close> equal to \<^verbatim>\<open>"--" + name\<close>, and the bare name when
  the loop ends.
\<close>

fun flag_loop :: "string list \<Rightarrow> string \<Rightarrow> string \<Rightarrow> string \<Rightarrow> string" where
  "flag_loop [] flaggedName name prefix = name"
| "flag_loop (f # fs) flaggedName name prefix =
     (if f = flaggedName then prefix @ name else flag_loop fs flaggedName name prefix)"

definition getFlagName :: "string \<Rightarrow> string \<Rightarrow> Flag list \<Rightarrow> string" where
  "getFlagName name prefix flags =
     (let flaggedName = ''--'' @ name;
          allFlags = [] @ commonFlags @ flagsToString flags
      in flag_loop allFlags flaggedName name prefix)"

section \<open>Data types of script options\<close>

text \<open>
  The implementations of \<^verbatim>\<open>pipeline.DataType\<close> that the type switch of
  \<^verbatim>\<open>validateOption\<close> tells apart; \<open>OtherType\<close> stands for every type that
  reaches its \<^verbatim>\<open>default\<close> branch.
\<close>

datatype DataType =
    XsBoolean
  | XsInteger
  | XsAnyURI
  | AnyFileURI
  | AnyDirURI
  | Pattern string
  | Choice "DataType list"
  | Value string
  | OtherType

section \<open>URLs, the file system and the standard library\<close>

text \<open>
  The fields of \<^verbatim>\<open>url.URL\<close>; \<^verbatim>\<open>&url.URL{Opaque: p}\<close> leaves every other
  field at its zero value.
\<close>

record URL =
  Scheme :: string
  Opaque :: string
  Host :: string
  Path :: string
  RawQuery :: string
  Fragment :: string

definition opaqueURL :: "string \<Rightarrow> URL" where
  "opaqueURL p = \<lparr>Scheme = [], Opaque = p, Host = [], Path = [], RawQuery = [], Fragment = []\<rparr>"

text \<open>\<^verbatim>\<open>u.IsAbs()\<close> is \<^verbatim>\<open>u.Scheme != ""\<close>.\<close>

definition IsAbs :: "URL \<Rightarrow> bool" where
  "IsAbs u = (Scheme u \<noteq> [])"

text \<open>
  What \<^verbatim>\<open>os.Stat\<close> reports for a path: success, an error for which
  \<^verbatim>\<open>os.IsNotExist\<close> holds, or any other error (a permission error, for instance).
\<close>

datatype stat_result = StatOk | StatNotExist err | StatOther err

text \<open>
  The operating system and the library functions that the code calls and whose sources
  are not part of the repository are parameters of the model:
  \<^item> \<open>Separator\<close> is \<^verbatim>\<open>filepath.Separator\<close>, \<open>/\<close> on Unix and \<open>\\<close> on Windows;
  \<^item> \<open>Getwd\<close> and \<open>Stat\<close> are \<^verbatim>\<open>os.Getwd\<close> and \<^verbatim>\<open>os.Stat\<close>;
  \<^item> \<open>url_Parse\<close>, \<open>ResolveReference\<close> and \<open>url_String\<close> are \<^verbatim>\<open>url.Parse\<close>,
    \<^verbatim>\<open>(*URL).ResolveReference\<close> and \<^verbatim>\<open>(*URL).String\<close>;
  \<^item> \<open>ParseInt\<close> is the error of \<^verbatim>\<open>strconv.ParseInt(value, 0, 0)\<close>, \<open>Quote\<close> is
    \<^verbatim>\<open>strconv.Quote\<close>, \<open>MatchString\<close> is \<^verbatim>\<open>regexp.MatchString\<close>;
  \<^item> \<open>typeToString t\<close> is \<^verbatim>\<open>uncolor(optionTypeToString(t, "", ""))\<close>;
  \<^item> \<open>Create_err\<close>, \<open>Write_err\<close> and \<open>ReadFile_err\<close> say whether \<^verbatim>\<open>os.Create\<close>,
    \<^verbatim>\<open>file.Write\<close> and \<^verbatim>\<open>ioutil.ReadFile\<close> fail on the last-id file; a failing
    write reports how many bytes it had written, and \<open>ReadFile_noent\<close> is the error of
    reading a file that does not exist;
  \<^item> \<open>zipProcessor\<close> and \<open>wc_Close\<close> are the errors of \<^verbatim>\<open>zipProcessor\<close> and of
    closing the writer it returns.
\<close>

record sys =
  Separator :: char
  Getwd :: "err + string"
  Stat :: "string \<Rightarrow> stat_result"
  url_Parse :: "string \<Rightarrow> err + URL"
  ResolveReference :: "URL \<Rightarrow> URL \<Rightarrow> URL"
  url_String :: "URL \<Rightarrow> string"
  ParseInt :: "string \<Rightarrow> err option"
  Quote :: "string \<Rightarrow> string"
  MatchString :: "string \<Rightarrow> string \<Rightarrow> err + bool"
  typeToString :: "DataType \<Rightarrow> string"
  Create_err :: "err option"
  Write_err :: "(nat \<times> err) option"
  ReadFile_noent :: err
  ReadFile_err :: "err option"
  zipProcessor :: "string \<Rightarrow> bool \<Rightarrow> err option"
  wc_Close :: "err option"

text \<open>
  \<^verbatim>\<open>filepath.ToSlash\<close> returns the path itself when the separator is \<open>/\<close>, and
  otherwise replaces every separator by \<open>/\<close>.
\<close>

definition ToSlash :: "sys \<Rightarrow> string \<Rightarrow> string" where
  "ToSlash s path =
     (if Separator s = CHR ''/'' then path
      else map (\<lambda>c. if c = Separator s then CHR ''/'' else c) path)"

text \<open>\<^verbatim>\<open>getBasePath\<close>: the working directory and a slash in local mode, else empty.\<close>

definition getBasePath :: "sys \<Rightarrow> bool \<Rightarrow> string outcome" where
  "getBasePath s isLocal =
     (if isLocal then
        (case Getwd s of
           Inl e \<Rightarrow> Panic (''Error while getting current directory:'' @ e)
         | Inr base \<Rightarrow> Return (base @ ''/''))
      else Return [])"

text \<open>
  \<^verbatim>\<open>pathToUri\<close> has two named results, \<^verbatim>\<open>u\<close> and \<^verbatim>\<open>err\<close>, and both are
  returned as they stand at each \<^verbatim>\<open>return\<close>. The third component lists the paths
  given to \<^verbatim>\<open>os.Stat\<close>, the only access to the file system.
\<close>

definition pathToUri :: "sys \<Rightarrow> string \<Rightarrow> string \<Rightarrow> URL option \<times> err option \<times> string list" where
  "pathToUri s path basePath =
     (case basePath of
        b # bs \<Rightarrow>
          (let basePath' = (if b \<noteq> CHR ''/'' then ''/'' @ basePath else basePath) in
           case url_Parse s (''file:'' @ basePath') of
             Inl e \<Rightarrow> (None, Some e, [])
           | Inr baseUrl \<Rightarrow>
               (case url_Parse s (ToSlash s path) of
                  Inl e \<Rightarrow> (None, Some e, [])
                | Inr u0 \<Rightarrow>
                    (let u = ResolveReference s baseUrl u0 in
                     case Stat s path of
                       StatNotExist e \<Rightarrow> (Some u, Some e, [path])
                     | _ \<Rightarrow>
                         (if Scheme u \<noteq> ''file'' \<or> \<not> IsAbs u
                          then (Some u, Some ''unexpected error'', [path])
                          else (Some u, None, [path])))))
      | [] \<Rightarrow> (Some (opaqueURL (ToSlash s path)), None, []))"

section \<open>Job requests and the pipeline link\<close>

text \<open>
  \<^verbatim>\<open>JobRequest\<close>. A Go map from names to slices is a partial map to lists; reading a
  missing key gives the nil slice, so appending under a new key starts from the empty list.
\<close>

record JobRequest =
  Script :: string
  Nicename :: string
  Priority :: string
  Options :: "string \<rightharpoonup> string list"
  Inputs :: "string \<rightharpoonup> URL list"
  Data :: "char list"
  Background :: bool

definition newJobRequest :: JobRequest where
  "newJobRequest = \<lparr>Script = [], Nicename = [], Priority = [], Options = Map.empty,
                     Inputs = Map.empty, Data = [], Background = False\<rparr>"

definition slice_of :: "('k \<rightharpoonup> 'v list) \<Rightarrow> 'k \<Rightarrow> 'v list" where
  "slice_of m k = (case m k of None \<Rightarrow> [] | Some xs \<Rightarrow> xs)"

definition map_append :: "('k \<rightharpoonup> 'v list) \<Rightarrow> 'k \<Rightarrow> 'v \<Rightarrow> ('k \<rightharpoonup> 'v list)" where
  "map_append m k v = m(k \<mapsto> slice_of m k @ [v])"

text \<open>
  The job that the server returns, and a message of its stream with the three things the
  code reads: \<^verbatim>\<open>msg.Error\<close>, \<^verbatim>\<open>msg.Status\<close> and \<^verbatim>\<open>msg.String()\<close>.
\<close>

record Job =
  job_Id :: string
  job_Status :: string

record Message =
  msg_Error :: "err option"
  msg_Status :: string
  msg_String :: string

text \<open>
  The channel of messages: the messages that the far end sends, in order, and whether it
  closes the channel after the last one. \<^verbatim>\<open>range\<close> over a channel that is never
  closed blocks for ever once the messages are used up.
\<close>

record MessageChan =
  sent :: "Message list"
  closed :: bool

text \<open>
  \<^verbatim>\<open>PipelineLink\<close>, whose methods are not among the sources, by what its calls
  return: \<^verbatim>\<open>IsLocal\<close>, \<^verbatim>\<open>Execute\<close> (an error, or the job and its channel),
  and the errors of \<^verbatim>\<open>Results\<close> and \<^verbatim>\<open>Delete\<close> for a job id.
\<close>

record PipelineLink =
  IsLocal :: bool
  Execute :: "JobRequest \<Rightarrow> err + (Job \<times> MessageChan)"
  Results :: "string \<Rightarrow> err option"
  Delete :: "string \<Rightarrow> err option"

text \<open>
  Modelled from the spec: \<^verbatim>\<open>PipelineLink.Execute\<close>, the method of the link that
  \<^verbatim>\<open>run\<close> calls and whose source is not among the sources. The spec: the submission
  sends the Job Request and on success receives a Job handle plus a live Message stream;
  an error of the submission is surfaced to the caller; background submissions skip
  streaming consumption entirely, background mode being the submit-and-return mode that
  skips status streaming (the field \<^verbatim>\<open>Background\<close> is commented
  \<^verbatim>\<open>Send the request and return\<close> in the source). So \<open>submit\<close> is the answer of the
  server to a request, \<open>stream\<close> gives the live messages of a job, and for a background
  request the channel carries no message and is closed.
\<close>

definition PipelineLink_Execute ::
    "(JobRequest \<Rightarrow> err + Job) \<Rightarrow> (Job \<Rightarrow> MessageChan) \<Rightarrow> JobRequest \<Rightarrow> err + (Job \<times> MessageChan)" where
  "PipelineLink_Execute submit stream jobReq =
     (case submit jobReq of
        Inl e \<Rightarrow> Inl e
      | Inr job \<Rightarrow>
          Inr (job, if Background jobReq then \<lparr>sent = [], closed = True\<rparr> else stream job))"

section \<open>Validation of option values\<close>

text \<open>\<^verbatim>\<open>strconv.ParseBool\<close> and \<^verbatim>\<open>strconv.FormatBool\<close>.\<close>

definition ParseBool :: "sys \<Rightarrow> string \<Rightarrow> err + bool" where
  "ParseBool s str =
     (if str \<in> set [''1'', ''t'', ''T'', ''TRUE'', ''true'', ''True''] then Inr True
      else if str \<in> set [''0'', ''f'', ''F'', ''FALSE'', ''false'', ''False''] then Inr False
      else Inl (''strconv.ParseBool: parsing '' @ Quote s str @ '': invalid syntax''))"

definition FormatBool :: "bool \<Rightarrow> string" where
  "FormatBool b = (if b then ''true'' else ''false'')"

text \<open>
  \<^verbatim>\<open>validateOption\<close> returns its two named results, \<^verbatim>\<open>result\<close> and \<^verbatim>\<open>err\<close>.
  The \<^verbatim>\<open>Pattern\<close>, \<^verbatim>\<open>Choice\<close> and \<^verbatim>\<open>Value\<close> branches return their own error
  at once; an error left by any other branch is wrapped by the last statement.
  \<open>choice_loop\<close> is the \<^verbatim>\<open>for\<close> loop of the \<^verbatim>\<open>Choice\<close> branch: its last
  argument holds \<^verbatim>\<open>result\<close> and \<^verbatim>\<open>err\<close> as they are when the remaining
  variants are reached.
\<close>

fun validateOption :: "sys \<Rightarrow> string \<Rightarrow> DataType \<Rightarrow> PipelineLink \<Rightarrow> (string \<times> err option) outcome"
  and choice_loop :: "sys \<Rightarrow> string \<Rightarrow> DataType list \<Rightarrow> PipelineLink \<Rightarrow> string \<times> err option
                        \<Rightarrow> (string \<times> err option) outcome" where
  "validateOption s value XsBoolean link =
     (case ParseBool s value of
        Inr b \<Rightarrow> Return (FormatBool b, None)
      | Inl e \<Rightarrow> Return (value, Some (''does not match '' @ typeToString s XsBoolean @ '': '' @ e)))"
| "validateOption s value XsInteger link =
     (case ParseInt s value of
        None \<Rightarrow> Return (value, None)
      | Some e \<Rightarrow> Return (value, Some (''does not match '' @ typeToString s XsInteger @ '': '' @ e)))"
| "validateOption s value XsAnyURI link = Return (value, None)"
| "validateOption s value AnyFileURI link =
     (case getBasePath s (IsLocal link) of
        Panic p \<Rightarrow> Panic p
      | Return basePath \<Rightarrow>
          (case pathToUri s value basePath of
             (Some u, None, _) \<Rightarrow> Return (url_String s u, None)
           | (None, None, _) \<Rightarrow> Panic ''nil pointer dereference''
           | (_, Some e, _) \<Rightarrow>
               Return (value, Some (''does not match '' @ typeToString s AnyFileURI @ '': '' @ e))))"
| "validateOption s value AnyDirURI link =
     (case getBasePath s (IsLocal link) of
        Panic p \<Rightarrow> Panic p
      | Return basePath \<Rightarrow>
          (case pathToUri s value basePath of
             (Some u, None, _) \<Rightarrow> Return (url_String s u, None)
           | (None, None, _) \<Rightarrow> Panic ''nil pointer dereference''
           | (_, Some e, _) \<Rightarrow>
               Return (value, Some (''does not match '' @ typeToString s AnyDirURI @ '': '' @ e))))"
| "validateOption s value (Pattern pat) link =
     (case MatchString s (''^(?:'' @ pat @ '')$'') value of
        Inr match \<Rightarrow>
          (if \<not> match then Return (value, Some (''does not match /'' @ pat @ ''/''))
           else Return (value, None))
      | Inl e \<Rightarrow>
          Return (value, Some (''does not match '' @ typeToString s (Pattern pat) @ '': '' @ e)))"
| "validateOption s value (Choice vs) link =
     (case choice_loop s value vs link (value, None) of
        Panic p \<Rightarrow> Panic p
      | Return (result, Some e) \<Rightarrow>
          Return (result, Some (''does not match '' @ typeToString s (Choice vs)))
      | Return (result, None) \<Rightarrow> Return (result, None))"
| "validateOption s value (Value lit) link =
     (if lit \<noteq> value then Return (value, Some (''does not match '' @ [CHR 0x27] @ lit @ [CHR 0x27]))
      else Return (value, None))"
| "validateOption s value OtherType link = Return (value, None)"
| "choice_loop s value [] link acc = Return acc"
| "choice_loop s value (v # vs) link acc =
     (case validateOption s value v link of
        Panic p \<Rightarrow> Panic p
      | Return (result, None) \<Rightarrow> Return (result, None)
      | Return (result, Some e) \<Rightarrow> choice_loop s value vs link (result, Some e))"

section \<open>Argument handlers\<close>

definition validationError :: "string \<Rightarrow> string \<Rightarrow> err option \<Rightarrow> err" where
  "validationError optionName value cause =
     (let msg = [CHR 0x27] @ value @ [CHR 0x27] @ '' is not allowed as the value for option --''
                 @ optionName
      in case cause of None \<Rightarrow> msg | Some c \<Rightarrow> msg @ '': '' @ c)"

text \<open>
  The handlers mutate the request through a pointer; the model returns the request as it
  is when the handler returns (or panics), next to what the handler returns.
  \<open>input_loop\<close> is the loop of \<^verbatim>\<open>inputFunc\<close> over the comma-separated paths.
\<close>

fun input_loop :: "sys \<Rightarrow> string \<Rightarrow> string \<Rightarrow> string list \<Rightarrow> JobRequest
                     \<Rightarrow> err option outcome \<times> JobRequest" where
  "input_loop s basePath name [] req = (Return None, req)"
| "input_loop s basePath name (path # paths) req =
     (case pathToUri s path basePath of
        (_, Some e, _) \<Rightarrow> (Return (Some e), req)
      | (None, None, _) \<Rightarrow> (Panic ''nil pointer dereference'', req)
      | (Some u, None, _) \<Rightarrow>
          input_loop s basePath name paths (req\<lparr>Inputs := map_append (Inputs req) name u\<rparr>))"

definition inputFunc :: "sys \<Rightarrow> JobRequest \<Rightarrow> PipelineLink \<Rightarrow> string \<Rightarrow> string
                           \<Rightarrow> err option outcome \<times> JobRequest" where
  "inputFunc s req link name value =
     (case getBasePath s (IsLocal link) of
        Panic p \<Rightarrow> (Panic p, req)
      | Return basePath \<Rightarrow>
          (case (if HasPrefix ''i-'' name
                 then (if length name < 2 then Panic ''slice bounds out of range''
                       else Return (drop 2 name))
                 else Return name) of
             Panic p \<Rightarrow> (Panic p, req)
           | Return name' \<Rightarrow> input_loop s basePath name' (Split value CHR '','') req))"

text \<open>\<open>option_loop\<close> is the loop of the \<^verbatim>\<open>sequence\<close> branch of \<^verbatim>\<open>optionFunc\<close>.\<close>

fun option_loop :: "sys \<Rightarrow> PipelineLink \<Rightarrow> DataType \<Rightarrow> string \<Rightarrow> string list \<Rightarrow> JobRequest
                      \<Rightarrow> err option outcome \<times> JobRequest" where
  "option_loop s link optionType name [] req = (Return None, req)"
| "option_loop s link optionType name (v # vs) req =
     (case validateOption s v optionType link of
        Panic p \<Rightarrow> (Panic p, req)
      | Return (v', Some e) \<Rightarrow> (Return (Some (validationError name v' (Some e))), req)
      | Return (v', None) \<Rightarrow>
          option_loop s link optionType name vs (req\<lparr>Options := map_append (Options req) name v'\<rparr>))"

definition optionFunc :: "sys \<Rightarrow> JobRequest \<Rightarrow> PipelineLink \<Rightarrow> DataType \<Rightarrow> bool \<Rightarrow> string \<Rightarrow> string
                            \<Rightarrow> err option outcome \<times> JobRequest" where
  "optionFunc s req link optionType sequence name value =
     (case (if HasPrefix ''x-'' name
            then (if length name < 2 then Panic ''slice bounds out of range''
                  else Return (drop 2 name))
            else Return name) of
        Panic p \<Rightarrow> (Panic p, req)
      | Return name' \<Rightarrow>
          (if sequence then option_loop s link optionType name' (Split value CHR '','') req
           else
             (case validateOption s value optionType link of
                Panic p \<Rightarrow> (Panic p, req)
              | Return (value', Some e) \<Rightarrow>
                  (Return (Some (validationError name' value' (Some e))), req)
              | Return (value', None) \<Rightarrow>
                  (Return None, req\<lparr>Options := map_append (Options req) name' value'\<rparr>))))"

section \<open>The last job id\<close>

text \<open>
  The file at \<^verbatim>\<open>LastIdPath\<close> is the only file that these two functions touch; its
  state is \<open>None\<close> when it does not exist and its content otherwise.
  \<^verbatim>\<open>os.Create\<close> creates the file or truncates it; \<^verbatim>\<open>file.Write\<close> then writes the
  bytes of the id, or fails after some of them.
\<close>

type_synonym id_file = "string option"

definition storeLastId :: "sys \<Rightarrow> string \<Rightarrow> id_file \<Rightarrow> err option \<times> id_file" where
  "storeLastId s ident f =
     (case Create_err s of
        Some e \<Rightarrow> (Some e, f)
      | None \<Rightarrow>
          (case Write_err s of
             Some (n, e) \<Rightarrow> (Some e, Some (take n ident))
           | None \<Rightarrow> (None, Some ident)))"

definition getLastId :: "sys \<Rightarrow> id_file \<Rightarrow> string \<times> err option" where
  "getLastId s f =
     (case f of
        None \<Rightarrow> ([], Some (ReadFile_noent s))
      | Some idBuf \<Rightarrow>
          (case ReadFile_err s of
             Some e \<Rightarrow> ([], Some e)
           | None \<Rightarrow> (idBuf, None)))"

section \<open>Executing a job request\<close>

record jobExecution =
  link :: PipelineLink
  req :: JobRequest
  "output" :: string
  verbose :: bool
  persistent :: bool
  zipped :: bool

text \<open>
  What \<^verbatim>\<open>run\<close> does to the world, in the order in which it does it: the log line
  with the length of the data, the warning printed on the standard output of the process,
  each call of the link, each write to \<^verbatim>\<open>stdOut\<close>, the call of
  \<^verbatim>\<open>storeLastId\<close>, each message received from the channel, and the calls that fetch
  the results.
\<close>

datatype event =
    EvLog nat
  | EvWarning
  | EvExecute JobRequest
  | EvStdout string
  | EvStoreLastId string
  | EvReceive Message
  | EvZipProcessor string bool
  | EvResults string
  | EvClose
  | EvDelete string

datatype run_result = Returns "err option" | BlocksForever

definition newline :: string where
  "newline = [CHR 0x0A]"

text \<open>
  The \<^verbatim>\<open>range\<close> loop over the channel, from the current \<^verbatim>\<open>status\<close>: it stops at
  the first message that carries an error (\<open>Inl\<close>), and otherwise ends with the status
  of the last message (\<open>Inr\<close>) when the messages are used up; \<open>echo\<close> is the
  \<^verbatim>\<open>verbose\<close> field.
\<close>

fun range_messages :: "bool \<Rightarrow> string \<Rightarrow> Message list \<Rightarrow> (err + string) \<times> event list" where
  "range_messages echo status [] = (Inr status, [])"
| "range_messages echo status (msg # msgs) =
     (case msg_Error msg of
        Some e \<Rightarrow> (Inl e, [EvReceive msg])
      | None \<Rightarrow>
          (let (r, tr) = range_messages echo (msg_Status msg) msgs
           in (r, [EvReceive msg]
                  @ (if echo then [EvStdout (msg_String msg @ newline)] else [])
                  @ tr)))"

text \<open>
  The end of \<^verbatim>\<open>run\<close>, after the loop: unless the last status is \<open>ERROR\<close> or the
  job runs in the background, the results are fetched, the job is deleted when it is not
  persistent, and the status is printed. It gives what \<^verbatim>\<open>run\<close> returns and the
  events of this part.
\<close>

definition run_results :: "sys \<Rightarrow> jobExecution \<Rightarrow> Job \<Rightarrow> string \<Rightarrow> err option \<times> event list" where
  "run_results s j job status =
     (if status \<noteq> ''ERROR'' \<and> \<not> Background (req j) then
        (case zipProcessor s (output j) (zipped j) of
           Some e \<Rightarrow> (Some e, [EvZipProcessor (output j) (zipped j)])
         | None \<Rightarrow>
             (case Results (link j) (job_Id job) of
                Some e \<Rightarrow> (Some e, [EvZipProcessor (output j) (zipped j), EvResults (job_Id job)])
              | None \<Rightarrow>
                  (case wc_Close s of
                     Some e \<Rightarrow>
                       (Some e,
                        [EvZipProcessor (output j) (zipped j), EvResults (job_Id job), EvClose])
                   | None \<Rightarrow>
                       (if \<not> persistent j then
                          (case Delete (link j) (job_Id job) of
                             Some e \<Rightarrow>
                               (Some e,
                                [EvZipProcessor (output j) (zipped j), EvResults (job_Id job),
                                 EvClose, EvDelete (job_Id job)])
                           | None \<Rightarrow>
                               (None,
                                [EvZipProcessor (output j) (zipped j), EvResults (job_Id job),
                                 EvClose, EvDelete (job_Id job),
                                 EvStdout (''The job has been deleted from the server'' @ newline),
                                 EvStdout (''Job finished with status: '' @ status @ newline)]))
                        else
                          (None,
                           [EvZipProcessor (output j) (zipped j), EvResults (job_Id job),
                            EvClose,
                            EvStdout (''Job finished with status: '' @ status @ newline)])))))
      else (None, []))"

text \<open>
  \<^verbatim>\<open>jobExecution.run\<close>: what it returns, what it did, and the last-id file afterwards.
\<close>

definition run :: "sys \<Rightarrow> jobExecution \<Rightarrow> id_file \<Rightarrow> run_result \<times> event list \<times> id_file" where
  "run s j f =
     (let tr0 = [EvLog (length (Data (req j)))] in
      if \<not> Background (req j) \<and> output j = [] then
        (Returns (Some ''--output option is mandatory if the job is not running in the req.Background''),
         tr0, f)
      else
        (let tr1 = tr0 @ (if Background (req j) \<and> output j \<noteq> [] then [EvWarning] else []);
             storeId = (Background (req j) \<or> persistent j);
             tr2 = tr1 @ [EvExecute (req j)]
         in case Execute (link j) (req j) of
              Inl e \<Rightarrow> (Returns (Some e), tr2, f)
            | Inr (job, messages) \<Rightarrow>
                (let tr3 = tr2 @ [EvStdout (''Job '' @ job_Id job @ '' sent to the server'' @ newline)];
                     (stored, f') = (if storeId then storeLastId s (job_Id job) f else (None, f));
                     tr4 = tr3 @ (if storeId then [EvStoreLastId (job_Id job)] else [])
                 in case stored of
                      Some e \<Rightarrow> (Returns (Some e), tr4, f')
                    | None \<Rightarrow>
                        (let (r, trm) = range_messages (verbose j) (job_Status job) (sent messages);
                             tr5 = tr4 @ trm
                         in case r of
                              Inl e \<Rightarrow> (Returns (Some e), tr5, f')
                            | Inr status \<Rightarrow>
                                (if \<not> closed messages then (BlocksForever, tr5, f')
                                 else
                                   (let (res, trr) = run_results s j job status
                                    in (Returns res, tr5 @ trr, f')))))))"

section \<open>A concrete system for explicit inputs\<close>

text \<open>
  The theorems below hold for every value of \<open>sys\<close> and \<open>PipelineLink\<close>. To evaluate
  the model at explicit inputs, the library functions are fixed here on the fragment of
  their domain that the examples use:
  \<^item> \<open>plain_Parse\<close> follows \<^verbatim>\<open>url.Parse\<close> on strings with a lower-case scheme or
    none, without \<open>?\<close>, \<open>#\<close>, \<open>%\<close> and without an authority: the scheme is found as
    \<^verbatim>\<open>getScheme\<close> finds it, the rest is the opaque part when there is a scheme and no
    leading slash, and the path otherwise (a relative path whose first segment has a
    colon is refused);
  \<^item> \<open>plain_Resolve\<close> follows \<^verbatim>\<open>ResolveReference\<close> on such URLs whose paths have no
    dot segments: a reference with a scheme is returned as it is, any other takes the
    scheme and host of the base, and a relative path is put behind the directory of the
    base path;
  \<^item> \<open>plain_String\<close> follows \<^verbatim>\<open>String\<close> on the URLs so obtained;
  \<^item> \<open>decimal_ParseInt\<close> accepts the unsigned decimal numerals of at most 18 digits
    without a leading zero; \<open>literal_MatchString\<close> decides the anchored patterns that
    consist of ordinary characters only; \<open>plain_Quote\<close> puts double quotes around
    a string that needs no escapes; \<open>type_name\<close> is a printer of types.
\<close>

definition letters :: string where
  "letters = ''abcdefghijklmnopqrstuvwxyzABCDEFGHIJKLMNOPQRSTUVWXYZ''"

fun getScheme :: "string \<Rightarrow> string \<Rightarrow> string \<Rightarrow> err + (string \<times> string)" where
  "getScheme rawURL seen [] = Inr ([], rawURL)"
| "getScheme rawURL seen (c # cs) =
     (if c \<in> set letters then getScheme rawURL (seen @ [c]) cs
      else if c \<in> set ''0123456789+-.'' then
        (if seen = [] then Inr ([], rawURL) else getScheme rawURL (seen @ [c]) cs)
      else if c = CHR '':'' then
        (if seen = [] then Inl ''missing protocol scheme'' else Inr (seen, cs))
      else Inr ([], rawURL))"

definition plain_Quote :: "string \<Rightarrow> string" where
  "plain_Quote str = [CHR 0x22] @ str @ [CHR 0x22]"

definition plain_Parse :: "string \<Rightarrow> err + URL" where
  "plain_Parse rawURL =
     (case getScheme rawURL [] rawURL of
        Inl e \<Rightarrow> Inl (''parse '' @ plain_Quote rawURL @ '': '' @ e)
      | Inr (scheme, rest) \<Rightarrow>
          (if scheme \<noteq> [] \<and> \<not> HasPrefix rest ''/''
           then Inr ((opaqueURL rest)\<lparr>Scheme := scheme\<rparr>)
           else if scheme = [] \<and> \<not> HasPrefix rest ''/''
                   \<and> CHR '':'' \<in> set (takeWhile (\<lambda>c. c \<noteq> CHR ''/'') rest)
           then Inl (''parse '' @ plain_Quote rawURL
                     @ '': first path segment in URL cannot contain colon'')
           else Inr ((opaqueURL [])\<lparr>Scheme := scheme, Path := rest\<rparr>)))"

fun dir_part :: "string \<Rightarrow> string" where
  "dir_part [] = []"
| "dir_part (c # cs) =
     (if CHR ''/'' \<in> set cs then c # dir_part cs
      else if c = CHR ''/'' then [c] else [])"

definition plain_Resolve :: "URL \<Rightarrow> URL \<Rightarrow> URL" where
  "plain_Resolve base ref =
     (if Scheme ref \<noteq> [] then ref
      else ref\<lparr>Scheme := Scheme base, Host := Host base,
               Path := (if HasPrefix (Path ref) ''/'' then Path ref
                        else dir_part (Path base) @ Path ref)\<rparr>)"

definition plain_String :: "URL \<Rightarrow> string" where
  "plain_String u =
     (if Scheme u \<noteq> [] then Scheme u @ '':'' else [])
     @ (if Opaque u \<noteq> [] then Opaque u
        else (if (Scheme u \<noteq> [] \<or> Host u \<noteq> []) \<and> (Host u \<noteq> [] \<or> Path u \<noteq> [])
              then ''//'' @ Host u else [])
             @ Path u)"

definition decimal_ParseInt :: "string \<Rightarrow> err option" where
  "decimal_ParseInt v =
     (if v \<noteq> [] \<and> length v \<le> 18 \<and> set v \<subseteq> set ''0123456789''
         \<and> (v = ''0'' \<or> \<not> HasPrefix v ''0'')
      then None
      else Some (''strconv.ParseInt: parsing '' @ plain_Quote v @ '': invalid syntax''))"

definition literal_MatchString :: "string \<Rightarrow> string \<Rightarrow> err + bool" where
  "literal_MatchString pat v = Inr (pat = ''^(?:'' @ v @ '')$'')"

fun type_name :: "DataType \<Rightarrow> string" where
  "type_name XsBoolean = ''boolean''"
| "type_name XsInteger = ''integer''"
| "type_name XsAnyURI = ''anyURI''"
| "type_name AnyFileURI = ''anyFileURI''"
| "type_name AnyDirURI = ''anyDirURI''"
| "type_name (Pattern pat) = ''/'' @ pat @ ''/''"
| "type_name (Choice vs) = ''one of '' @ concat (map (\<lambda>v. type_name v @ '' '') vs)"
| "type_name (Value lit) = lit"
| "type_name OtherType = ''string''"

text \<open>
  A Unix system in the directory \<open>/home/user\<close>, where \<open>tmp/file\<close> exists, the
  directories \<open>c:\<close> and \<open>secret\<close> cannot be searched and nothing else exists; and the
  same system with the path separator of Windows.
\<close>

definition unix_sys :: sys where
  "unix_sys =
     \<lparr>Separator = CHR ''/'',
      Getwd = Inr ''/home/user'',
      Stat = (\<lambda>p. if p = ''tmp/file'' then StatOk
                  else if p = ''c:/x'' then StatOther ''stat c:/x: permission denied''
                  else if p = ''secret/file''
                    then StatOther ''stat secret/file: permission denied''
                  else StatNotExist (''stat '' @ p @ '': no such file or directory'')),
      url_Parse = plain_Parse,
      ResolveReference = plain_Resolve,
      url_String = plain_String,
      ParseInt = decimal_ParseInt,
      Quote = plain_Quote,
      MatchString = literal_MatchString,
      typeToString = type_name,
      Create_err = None,
      Write_err = None,
      ReadFile_noent = ''no such file or directory'',
      ReadFile_err = None,
      zipProcessor = (\<lambda>p z. None),
      wc_Close = None\<rparr>"

definition windows_sys :: sys where
  "windows_sys = unix_sys\<lparr>Separator := CHR 0x5C\<rparr>"

text \<open>
  A link whose server accepts every request and answers with the job \<open>job-1\<close>, and
  whose live stream carries the given messages and is then closed; and a message with an
  error.
\<close>

definition test_link :: "bool \<Rightarrow> Message list \<Rightarrow> PipelineLink" where
  "test_link isLocal msgs =
     \<lparr>IsLocal = isLocal,
      Execute = PipelineLink_Execute
                  (\<lambda>r. Inr \<lparr>job_Id = ''job-1'', job_Status = ''IDLE''\<rparr>)
                  (\<lambda>job. \<lparr>sent = msgs, closed = True\<rparr>),
      Results = (\<lambda>i. None),
      Delete = (\<lambda>i. None)\<rparr>"

definition failing_message :: Message where
  "failing_message = \<lparr>msg_Error = Some ''connection lost'', msg_Status = ''RUNNING'',
                       msg_String = ''(1) connection lost''\<rparr>"

section \<open>Properties of the flag names\<close>

lemma flag_loop_mem:
  "flag_loop fs fn name prefix = (if fn \<in> set fs then prefix @ name else name)"
  by (induction fs) auto

lemma getFlagName_eq:
  "getFlagName name prefix flags =
     (if ''--'' @ name \<in> set commonFlags \<union> Long ` set flags then prefix @ name else name)"
  by (simp add: getFlagName_def flagsToString_def flag_loop_mem)

section \<open>Flag names of declared inputs and options\<close>

text \<open>
  C8, as the code has it. A declared name is exposed as \<open>prefix @ name\<close> exactly when
  \<open>--name\<close> is one of the seven entries of \<open>commonFlags\<close> (output, zip, nicename,
  priority, quiet, persistent, background) or the long form of a flag that the command
  already has; every other name is exposed as it is declared.
\<close>

theorem getFlagName_prefixes:
  "getFlagName name prefix flags =
     (if name \<in> set [''output'', ''zip'', ''nicename'', ''priority'', ''quiet'', ''persistent'',
                      ''background'']
         \<or> ''--'' @ name \<in> Long ` set flags
      then prefix @ name else name)"
  by (auto simp add: getFlagName_eq commonFlags_def)

theorem getFlagName_prefixes_witness:
  "getFlagName ''output'' ''i-'' [] = ''i-output''
   \<and> getFlagName ''source'' ''i-'' [\<lparr>Long = ''--help''\<rparr>] = ''source''
   \<and> getFlagName ''data'' ''x-'' [\<lparr>Long = ''--data''\<rparr>] = ''x-data''"
  using getFlagName_prefixes [of "''output''" "''i-''" "[]"]
        getFlagName_prefixes [of "''source''" "''i-''" "[\<lparr>Long = ''--help''\<rparr>]"]
        getFlagName_prefixes [of "''data''" "''x-''" "[\<lparr>Long = ''--data''\<rparr>]"]
  by simp

text \<open>
  The name \<open>data\<close> is not in \<open>commonFlags\<close>: on a command that has no flag \<open>--data\<close>
  yet, an input called \<open>data\<close> keeps its name.
\<close>

theorem getFlagName_data_unprefixed:
  "getFlagName ''data'' ''i-'' [] = ''data''"
  by (simp add: getFlagName_def flagsToString_def commonFlags_def)

section \<open>Resolution of paths\<close>

text \<open>
  C7, as the code has it. With an empty base path \<open>pathToUri\<close> never calls
  \<^verbatim>\<open>os.Stat\<close>, never fails, and returns the URL whose only non-empty field is the
  opaque part \<^verbatim>\<open>filepath.ToSlash(path)\<close>: the path itself where the separator is the
  slash, and the path with every backslash replaced by a slash where the separator is the
  backslash.
\<close>

theorem pathToUri_remote:
  "pathToUri s path [] = (Some (opaqueURL (ToSlash s path)), None, [])
   \<and> (Separator s = CHR ''/'' \<longrightarrow> ToSlash s path = path)
   \<and> (Separator s = CHR 0x5C \<longrightarrow>
        ToSlash s path = map (\<lambda>c. if c = CHR 0x5C then CHR ''/'' else c) path)"
  by (simp add: pathToUri_def ToSlash_def)

theorem pathToUri_remote_witness:
  "pathToUri windows_sys [CHR ''a'', CHR 0x5C, CHR ''b''] [] = (Some (opaqueURL ''a/b''), None, [])
   \<and> pathToUri unix_sys ''a/b'' [] = (Some (opaqueURL ''a/b''), None, [])"
  using pathToUri_remote [of windows_sys "[CHR ''a'', CHR 0x5C, CHR ''b'']"]
        pathToUri_remote [of unix_sys "''a/b''"]
  by (simp add: windows_sys_def unix_sys_def)

text \<open>On a system whose separator is the slash, a backslash stays in the opaque part.\<close>

theorem pathToUri_remote_keeps_backslash:
  "pathToUri unix_sys [CHR ''a'', CHR 0x5C, CHR ''b''] []
     = (Some (opaqueURL [CHR ''a'', CHR 0x5C, CHR ''b'']), None, [])"
  by (simp add: pathToUri_def ToSlash_def unix_sys_def)

text \<open>
  C10, as the code has it. With a non-empty base path, and both URLs parsed, the error of
  \<^verbatim>\<open>os.Stat\<close> is returned exactly when \<^verbatim>\<open>os.IsNotExist\<close> holds for it. Every
  other outcome of \<^verbatim>\<open>os.Stat\<close>, a failure included, leads to the check of the
  resolved URL: the result is that URL without an error when its scheme is \<open>file\<close>, and
  the error \<open>unexpected error\<close> otherwise.
\<close>

theorem pathToUri_local_stat:
  assumes "basePath \<noteq> []"
    and "url_Parse s (''file:'' @ (if hd basePath \<noteq> CHR ''/'' then ''/'' @ basePath else basePath)) = Inr baseUrl"
    and "url_Parse s (ToSlash s path) = Inr u0"
  shows "(\<forall>e. Stat s path = StatNotExist e \<longrightarrow>
            pathToUri s path basePath = (Some (ResolveReference s baseUrl u0), Some e, [path]))
       \<and> ((\<forall>e. Stat s path \<noteq> StatNotExist e) \<longrightarrow>
            pathToUri s path basePath
              = (Some (ResolveReference s baseUrl u0),
                 if Scheme (ResolveReference s baseUrl u0) = ''file'' then None
                 else Some ''unexpected error'',
                 [path]))"
  using assms
  by (cases basePath; cases "Stat s path") (auto simp add: pathToUri_def Let_def IsAbs_def)

theorem pathToUri_local_stat_witness:
  "pathToUri unix_sys ''tmp/nofile'' ''/home/user/''
     = (Some ((opaqueURL [])\<lparr>Scheme := ''file'', Path := ''/home/user/tmp/nofile''\<rparr>),
        Some ''stat tmp/nofile: no such file or directory'', [''tmp/nofile''])
   \<and> pathToUri unix_sys ''secret/file'' ''/home/user/''
     = (Some ((opaqueURL [])\<lparr>Scheme := ''file'', Path := ''/home/user/secret/file''\<rparr>), None,
        [''secret/file''])"
proof -
  let ?base = "(opaqueURL [])\<lparr>Scheme := ''file'', Path := ''/home/user/''\<rparr>"
  have ne: "''/home/user/'' \<noteq> []" by simp
  have p1: "url_Parse unix_sys (''file:'' @ (if hd ''/home/user/'' \<noteq> CHR ''/''
              then ''/'' @ ''/home/user/'' else ''/home/user/'')) = Inr ?base"
    by (simp add: unix_sys_def plain_Parse_def letters_def HasPrefix_def)
  have p2: "url_Parse unix_sys (ToSlash unix_sys ''tmp/nofile'')
              = Inr ((opaqueURL [])\<lparr>Path := ''tmp/nofile''\<rparr>)"
    by (simp add: unix_sys_def plain_Parse_def letters_def HasPrefix_def ToSlash_def opaqueURL_def)
  have p3: "url_Parse unix_sys (ToSlash unix_sys ''secret/file'')
              = Inr ((opaqueURL [])\<lparr>Path := ''secret/file''\<rparr>)"
    by (simp add: unix_sys_def plain_Parse_def letters_def HasPrefix_def ToSlash_def opaqueURL_def)
  have r2: "ResolveReference unix_sys ?base ((opaqueURL [])\<lparr>Path := ''tmp/nofile''\<rparr>)
              = (opaqueURL [])\<lparr>Scheme := ''file'', Path := ''/home/user/tmp/nofile''\<rparr>"
    by (simp add: unix_sys_def plain_Resolve_def HasPrefix_def opaqueURL_def)
  have r3: "ResolveReference unix_sys ?base ((opaqueURL [])\<lparr>Path := ''secret/file''\<rparr>)
              = (opaqueURL [])\<lparr>Scheme := ''file'', Path := ''/home/user/secret/file''\<rparr>"
    by (simp add: unix_sys_def plain_Resolve_def HasPrefix_def opaqueURL_def)
  have s2: "Stat unix_sys ''tmp/nofile'' = StatNotExist ''stat tmp/nofile: no such file or directory''"
    by (simp add: unix_sys_def)
  have s3: "\<forall>e. Stat unix_sys ''secret/file'' \<noteq> StatNotExist e"
    by (simp add: unix_sys_def)
  show ?thesis
    using pathToUri_local_stat [OF ne p1 p2] pathToUri_local_stat [OF ne p1 p3] s2 s3 r2 r3
    by (simp add: opaqueURL_def)
qed

text \<open>
  The path \<open>c:/x\<close> parses with the scheme \<open>c\<close>. When \<^verbatim>\<open>os.Stat\<close> fails on it with
  a permission error, that error is dropped, and the resolution fails all the same.
\<close>

theorem pathToUri_local_unexpected_error:
  "Stat unix_sys ''c:/x'' = StatOther ''stat c:/x: permission denied''
   \<and> pathToUri unix_sys ''c:/x'' ''/home/user/''
       = (Some ((opaqueURL [])\<lparr>Scheme := ''c'', Path := ''/x''\<rparr>), Some ''unexpected error'', [''c:/x''])"
  by (simp add: pathToUri_def ToSlash_def unix_sys_def plain_Parse_def plain_Resolve_def
      letters_def HasPrefix_def opaqueURL_def IsAbs_def)

section \<open>Storing and reading the last job id\<close>

text \<open>
  C9. When \<open>storeLastId\<close> succeeds, whatever the file held before, the file holds the
  id, and a \<open>getLastId\<close> that then succeeds returns exactly that id.
\<close>

theorem storeLastId_getLastId:
  assumes "storeLastId s ident f = (None, f')"
    and "getLastId s' f' = (r, None)"
  shows "f' = Some ident \<and> r = ident"
  using assms
  by (auto simp add: storeLastId_def getLastId_def split: option.splits prod.splits)

theorem storeLastId_getLastId_witness:
  "storeLastId unix_sys ''job-2'' (Some ''job-1'') = (None, Some ''job-2'')
   \<and> getLastId unix_sys (Some ''job-2'') = (''job-2'', None)"
proof -
  have a: "storeLastId unix_sys ''job-2'' (Some ''job-1'') = (None, Some ''job-2'')"
    by (simp add: storeLastId_def unix_sys_def)
  have b: "getLastId unix_sys (Some ''job-2'') = (''job-2'', None)"
    by (simp add: getLastId_def unix_sys_def)
  show ?thesis
    using storeLastId_getLastId [OF a b] a b by simp
qed

section \<open>The execution of a job\<close>

text \<open>
  C3. A job that does not run in the background and has no output destination makes
  \<open>run\<close> return the error at once: the log line is all that happened, \<open>Execute\<close> was
  not called, and the last-id file is untouched.
\<close>

theorem run_output_mandatory:
  assumes "\<not> Background (req j)" and "output j = []"
  shows "run s j f =
           (Returns (Some ''--output option is mandatory if the job is not running in the req.Background''),
            [EvLog (length (Data (req j)))], f)
         \<and> (\<forall>q. EvExecute q \<notin> set (fst (snd (run s j f))))"
  using assms by (simp add: run_def)

theorem run_output_mandatory_witness:
  "run unix_sys \<lparr>link = test_link False [], req = newJobRequest, output = [], verbose = True,
                  persistent = False, zipped = False\<rparr> None
     = (Returns (Some ''--output option is mandatory if the job is not running in the req.Background''),
        [EvLog 0], None)"
proof -
  let ?j = "\<lparr>link = test_link False [], req = newJobRequest, output = [], verbose = True,
             persistent = False, zipped = False\<rparr>"
  have a: "\<not> Background (req ?j)" by (simp add: newJobRequest_def)
  have b: "output ?j = []" by simp
  show ?thesis
    using run_output_mandatory [OF a b, of unix_sys None] by (simp add: newJobRequest_def)
qed

text \<open>The events of the loop over the messages and of the end of \<open>run\<close>.\<close>

lemma range_messages_events:
  "set (snd (range_messages echo st ms)) \<subseteq> range EvReceive \<union> range EvStdout"
proof (induction ms arbitrary: st)
  case Nil
  show ?case by simp
next
  case (Cons m ms)
  obtain r tr where rt: "range_messages echo (msg_Status m) ms = (r, tr)"
    by (cases "range_messages echo (msg_Status m) ms")
  from Cons [of "msg_Status m"] rt show ?case
    by (auto split: option.splits)
qed

lemma range_messages_no_store: "EvStoreLastId i \<notin> set (snd (range_messages echo st ms))"
  using range_messages_events [of echo st ms] by auto

lemma range_messages_no_execute: "EvExecute q \<notin> set (snd (range_messages echo st ms))"
  using range_messages_events [of echo st ms] by auto

lemma range_messages_received:
  "[m. EvReceive m \<leftarrow> snd (range_messages echo st ms)]
     = takeWhile (\<lambda>m. msg_Error m = None) ms @ take 1 (dropWhile (\<lambda>m. msg_Error m = None) ms)"
proof (induction ms arbitrary: st)
  case Nil
  show ?case by simp
next
  case (Cons m ms)
  obtain r tr where rt: "range_messages echo (msg_Status m) ms = (r, tr)"
    by (cases "range_messages echo (msg_Status m) ms")
  from Cons [of "msg_Status m"] rt show ?case
    by (auto split: option.splits)
qed

lemma range_messages_result:
  "fst (range_messages echo st ms)
     = (case find (\<lambda>m. msg_Error m \<noteq> None) ms of
          Some m \<Rightarrow> Inl (the (msg_Error m))
        | None \<Rightarrow> Inr (last (st # map msg_Status ms)))"
proof (induction ms arbitrary: st)
  case Nil
  show ?case by simp
next
  case (Cons m ms)
  obtain r tr where rt: "range_messages echo (msg_Status m) ms = (r, tr)"
    by (cases "range_messages echo (msg_Status m) ms")
  from Cons [of "msg_Status m"] rt show ?case
    by (auto split: option.splits)
qed

lemma run_results_events:
  "set (snd (run_results s j job status))
     \<subseteq> {EvZipProcessor (output j) (zipped j), EvResults (job_Id job), EvClose,
         EvDelete (job_Id job)} \<union> range EvStdout"
  by (auto simp add: run_results_def split: option.splits)

lemma run_results_background:
  "Background (req j) \<Longrightarrow> run_results s j job status = (None, [])"
  by (simp add: run_results_def)

text \<open>A run whose request passed the check of the output and was accepted by the server.\<close>

lemma run_accepted:
  assumes ex: "Execute (link j) (req j) = Inr (job, ch)"
    and pre: "Background (req j) \<or> output j \<noteq> []"
  shows "run s j f =
     (let tr3 = [EvLog (length (Data (req j)))]
                @ (if Background (req j) \<and> output j \<noteq> [] then [EvWarning] else [])
                @ [EvExecute (req j),
                   EvStdout (''Job '' @ job_Id job @ '' sent to the server'' @ newline)];
          storeId = (Background (req j) \<or> persistent j);
          stored = (if storeId then storeLastId s (job_Id job) f else (None, f));
          tr4 = tr3 @ (if storeId then [EvStoreLastId (job_Id job)] else []);
          rm = range_messages (verbose j) (job_Status job) (sent ch);
          rr = (case fst rm of Inl e \<Rightarrow> (None, []) | Inr status \<Rightarrow> run_results s j job status)
      in case fst stored of
           Some e \<Rightarrow> (Returns (Some e), tr4, snd stored)
         | None \<Rightarrow>
             (case fst rm of
                Inl e \<Rightarrow> (Returns (Some e), tr4 @ snd rm, snd stored)
              | Inr status \<Rightarrow>
                  (if \<not> closed ch then (BlocksForever, tr4 @ snd rm, snd stored)
                   else (Returns (fst rr), tr4 @ snd rm @ snd rr, snd stored))))"
  using assms
  by (auto simp add: run_def Let_def split: prod.splits option.splits sum.splits)

text \<open>
  C4. After a successful submission the trace of \<open>run\<close> consists of the events before
  the submission, the call of \<open>Execute\<close>, the report of the job id, then the call of
  \<open>storeLastId\<close> with the job id exactly when the request runs in the background or the
  job is persistent, and then everything else: \<open>storeLastId\<close> is not called again, and
  every message is received in that last part. The last-id file is afterwards what
  \<open>storeLastId\<close> left (the job id when creating and writing the file succeed) if the id
  was to be stored, and unchanged if not.
\<close>

theorem run_stores_id:
  assumes ex: "Execute (link j) (req j) = Inr (job, ch)"
    and pre: "Background (req j) \<or> output j \<noteq> []"
  shows "\<exists>post.
           fst (snd (run s j f)) =
             [EvLog (length (Data (req j)))]
             @ (if Background (req j) \<and> output j \<noteq> [] then [EvWarning] else [])
             @ [EvExecute (req j),
                EvStdout (''Job '' @ job_Id job @ '' sent to the server'' @ newline)]
             @ (if Background (req j) \<or> persistent j then [EvStoreLastId (job_Id job)] else [])
             @ post
           \<and> (\<forall>i. EvStoreLastId i \<notin> set post) \<and> (\<forall>q. EvExecute q \<notin> set post)
           \<and> snd (snd (run s j f)) =
               (if Background (req j) \<or> persistent j then snd (storeLastId s (job_Id job) f)
                else f)
           \<and> ((Background (req j) \<or> persistent j) \<and> Create_err s = None \<and> Write_err s = None
                \<longrightarrow> snd (snd (run s j f)) = Some (job_Id job))"
proof -
  let ?rm = "range_messages (verbose j) (job_Status job) (sent ch)"
  have a: "\<And>i st. EvStoreLastId i \<notin> set (snd (run_results s j job st))"
    using run_results_events [of s j job] by auto
  have b: "\<And>q st. EvExecute q \<notin> set (snd (run_results s j job st))"
    using run_results_events [of s j job] by auto
  have c: "Create_err s = None \<and> Write_err s = None
             \<longrightarrow> snd (storeLastId s (job_Id job) f) = Some (job_Id job)"
    by (simp add: storeLastId_def)
  show ?thesis
    unfolding run_accepted [OF ex pre]
    using a b c range_messages_no_store [of _ "verbose j" "job_Status job" "sent ch"]
      range_messages_no_execute [of _ "verbose j" "job_Status job" "sent ch"]
    by (auto simp add: Let_def split: option.splits sum.splits)
qed

theorem run_stores_id_witness:
  "take 4 (fst (snd (run unix_sys \<lparr>link = test_link False [failing_message], req = newJobRequest,
                                    output = ''out'', verbose = True, persistent = True,
                                    zipped = False\<rparr> None)))
     = [EvLog 0, EvExecute newJobRequest,
        EvStdout (''Job job-1 sent to the server'' @ newline), EvStoreLastId ''job-1'']
   \<and> snd (snd (run unix_sys \<lparr>link = test_link False [failing_message], req = newJobRequest,
                              output = ''out'', verbose = True, persistent = True,
                              zipped = False\<rparr> None)) = Some ''job-1''"
proof -
  let ?j = "\<lparr>link = test_link False [failing_message], req = newJobRequest, output = ''out'',
             verbose = True, persistent = True, zipped = False\<rparr>"
  have ex: "Execute (link ?j) (req ?j)
              = Inr (\<lparr>job_Id = ''job-1'', job_Status = ''IDLE''\<rparr>,
                     \<lparr>sent = [failing_message], closed = True\<rparr>)"
    by (simp add: test_link_def PipelineLink_Execute_def newJobRequest_def)
  have pre: "Background (req ?j) \<or> output ?j \<noteq> []" by simp
  have fs: "Create_err unix_sys = None \<and> Write_err unix_sys = None"
    by (simp add: unix_sys_def)
  from run_stores_id [OF ex pre, of unix_sys None] fs
  show ?thesis
    by (auto simp add: newJobRequest_def)
qed

text \<open>
  In the background \<open>run\<close> has no return of its own: once the id is reported and stored
  it ranges over the channel that \<open>Execute\<close> returned, as it does in the foreground, and
  then fetches no results and deletes nothing. What it receives is decided by the channel:
  the messages up to the first one that carries an error; a channel that is closed
  without a message makes it return right after the id is reported and stored.
\<close>

lemma run_background_channel:
  assumes bg: "Background (req j)"
    and ex: "Execute (link j) (req j) = Inr (job, ch)"
    and st: "storeLastId s (job_Id job) f = (None, f')"
  shows "fst (snd (run s j f)) =
           [EvLog (length (Data (req j)))]
           @ (if output j \<noteq> [] then [EvWarning] else [])
           @ [EvExecute (req j),
              EvStdout (''Job '' @ job_Id job @ '' sent to the server'' @ newline),
              EvStoreLastId (job_Id job)]
           @ snd (range_messages (verbose j) (job_Status job) (sent ch))
         \<and> [m. EvReceive m \<leftarrow> fst (snd (run s j f))] =
             takeWhile (\<lambda>m. msg_Error m = None) (sent ch)
             @ take 1 (dropWhile (\<lambda>m. msg_Error m = None) (sent ch))
         \<and> fst (run s j f) =
             (case find (\<lambda>m. msg_Error m \<noteq> None) (sent ch) of
                Some m \<Rightarrow> Returns (msg_Error m)
              | None \<Rightarrow> if closed ch then Returns None else BlocksForever)
         \<and> (sent ch = [] \<and> closed ch \<longrightarrow>
              run s j f =
                (Returns None,
                 [EvLog (length (Data (req j)))]
                 @ (if output j \<noteq> [] then [EvWarning] else [])
                 @ [EvExecute (req j),
                    EvStdout (''Job '' @ job_Id job @ '' sent to the server'' @ newline),
                    EvStoreLastId (job_Id job)],
                 f'))"
proof -
  let ?rm = "range_messages (verbose j) (job_Status job) (sent ch)"
  have pre: "Background (req j) \<or> output j \<noteq> []" using bg by simp
  have tr: "fst (snd (run s j f)) =
           [EvLog (length (Data (req j)))]
           @ (if output j \<noteq> [] then [EvWarning] else [])
           @ [EvExecute (req j),
              EvStdout (''Job '' @ job_Id job @ '' sent to the server'' @ newline),
              EvStoreLastId (job_Id job)]
           @ snd ?rm"
    unfolding run_accepted [OF ex pre]
    using bg st by (simp add: Let_def run_results_background split: sum.splits)
  have rc: "[m. EvReceive m \<leftarrow> fst (snd (run s j f))] =
             takeWhile (\<lambda>m. msg_Error m = None) (sent ch)
             @ take 1 (dropWhile (\<lambda>m. msg_Error m = None) (sent ch))"
    unfolding tr using range_messages_received [of "verbose j" "job_Status job" "sent ch"]
    by simp
  have res: "fst (run s j f) =
             (case find (\<lambda>m. msg_Error m \<noteq> None) (sent ch) of
                Some m \<Rightarrow> Returns (msg_Error m)
              | None \<Rightarrow> if closed ch then Returns None else BlocksForever)"
  proof (cases "find (\<lambda>m. msg_Error m \<noteq> None) (sent ch)")
    case None
    then have "fst ?rm = Inr (last (job_Status job # map msg_Status (sent ch)))"
      by (simp add: range_messages_result)
    then show ?thesis
      unfolding run_accepted [OF ex pre]
      using bg st None by (simp add: Let_def run_results_background)
  next
    case (Some m)
    then obtain e where e: "msg_Error m = Some e"
      by (auto simp add: find_Some_iff)
    from Some e have "fst ?rm = Inl e"
      by (simp add: range_messages_result)
    then show ?thesis
      unfolding run_accepted [OF ex pre]
      using bg st Some e by (simp add: Let_def)
  qed
  have emp: "sent ch = [] \<and> closed ch \<longrightarrow>
              run s j f =
                (Returns None,
                 [EvLog (length (Data (req j)))]
                 @ (if output j \<noteq> [] then [EvWarning] else [])
                 @ [EvExecute (req j),
                    EvStdout (''Job '' @ job_Id job @ '' sent to the server'' @ newline),
                    EvStoreLastId (job_Id job)],
                 f')"
    unfolding run_accepted [OF ex pre]
    using bg st by (simp add: Let_def run_results_background)
  from tr rc res emp show ?thesis by blast
qed

text \<open>
  C2. With the \<^verbatim>\<open>Execute\<close> of the link as the spec has it, a run whose request has
  the background flag receives no message. It calls \<open>Execute\<close>; when the submission
  fails it returns that error; otherwise it reports the job id, calls \<open>storeLastId\<close>
  with it, and returns what \<open>storeLastId\<close> returned: nothing happens after the id is
  reported and stored, and the run never blocks.
\<close>

theorem run_background_returns:
  assumes bg: "Background (req j)"
    and lk: "Execute (link j) = PipelineLink_Execute submit stream"
  shows "(\<forall>m. EvReceive m \<notin> set (fst (snd (run s j f))))
       \<and> run s j f =
           (case submit (req j) of
              Inl e \<Rightarrow>
                (Returns (Some e),
                 [EvLog (length (Data (req j)))]
                 @ (if output j \<noteq> [] then [EvWarning] else [])
                 @ [EvExecute (req j)],
                 f)
            | Inr job \<Rightarrow>
                (Returns (fst (storeLastId s (job_Id job) f)),
                 [EvLog (length (Data (req j)))]
                 @ (if output j \<noteq> [] then [EvWarning] else [])
                 @ [EvExecute (req j),
                    EvStdout (''Job '' @ job_Id job @ '' sent to the server'' @ newline),
                    EvStoreLastId (job_Id job)],
                 snd (storeLastId s (job_Id job) f)))"
proof -
  have r: "run s j f =
           (case submit (req j) of
              Inl e \<Rightarrow>
                (Returns (Some e),
                 [EvLog (length (Data (req j)))]
                 @ (if output j \<noteq> [] then [EvWarning] else [])
                 @ [EvExecute (req j)],
                 f)
            | Inr job \<Rightarrow>
                (Returns (fst (storeLastId s (job_Id job) f)),
                 [EvLog (length (Data (req j)))]
                 @ (if output j \<noteq> [] then [EvWarning] else [])
                 @ [EvExecute (req j),
                    EvStdout (''Job '' @ job_Id job @ '' sent to the server'' @ newline),
                    EvStoreLastId (job_Id job)],
                 snd (storeLastId s (job_Id job) f)))"
  proof (cases "submit (req j)")
    case (Inl e)
    then have "Execute (link j) (req j) = Inl e"
      by (simp add: lk PipelineLink_Execute_def)
    with bg Inl show ?thesis
      by (simp add: run_def)
  next
    case (Inr job)
    then have ex: "Execute (link j) (req j) = Inr (job, \<lparr>sent = [], closed = True\<rparr>)"
      using bg by (simp add: lk PipelineLink_Execute_def)
    have pre: "Background (req j) \<or> output j \<noteq> []" using bg by simp
    show ?thesis
      unfolding run_accepted [OF ex pre]
      using bg Inr
      by (cases "storeLastId s (job_Id job) f")
         (auto simp add: Let_def run_results_background split: option.splits)
  qed
  have "\<forall>m. EvReceive m \<notin> set (fst (snd (run s j f)))"
    unfolding r by (cases "submit (req j)") auto
  with r show ?thesis by simp
qed

theorem run_background_returns_witness:
  "run unix_sys \<lparr>link = test_link False [failing_message],
                  req = newJobRequest\<lparr>Background := True\<rparr>, output = [], verbose = True,
                  persistent = False, zipped = False\<rparr> (Some ''job-0'')
     = (Returns None,
        [EvLog 0, EvExecute (newJobRequest\<lparr>Background := True\<rparr>),
         EvStdout (''Job job-1 sent to the server'' @ newline), EvStoreLastId ''job-1''],
        Some ''job-1'')"
proof -
  let ?j = "\<lparr>link = test_link False [failing_message],
             req = newJobRequest\<lparr>Background := True\<rparr>, output = [], verbose = True,
             persistent = False, zipped = False\<rparr>"
  have bg: "Background (req ?j)" by simp
  have lk: "Execute (link ?j)
              = PipelineLink_Execute (\<lambda>r. Inr \<lparr>job_Id = ''job-1'', job_Status = ''IDLE''\<rparr>)
                  (\<lambda>job. \<lparr>sent = [failing_message], closed = True\<rparr>)"
    by (simp add: test_link_def)
  from run_background_returns [OF bg lk, of unix_sys "Some ''job-0''"]
  show ?thesis
    by (simp add: newJobRequest_def storeLastId_def unix_sys_def)
qed

section \<open>The argument handlers\<close>

text \<open>
  The handlers call \<^verbatim>\<open>strings.HasPrefix\<close> with the prefix as the string and the
  name as the prefix: the test holds for the names that are a prefix of \<open>i-\<close> (or
  \<open>x-\<close>) and for no other name.
\<close>

lemma HasPrefix_of_short:
  "HasPrefix [a, b] name \<longleftrightarrow> name = [] \<or> name = [a] \<or> name = [a, b]"
proof (cases name)
  case Nil
  then show ?thesis by (simp add: HasPrefix_def)
next
  case (Cons x xs)
  then show ?thesis
    by (cases xs) (auto simp add: HasPrefix_def)
qed

text \<open>
  C1 says that the handlers strip the prefix \<open>i-\<close> or \<open>x-\<close> from the exposed name
  before they use it as a key. On the code they do not: the input handler called with
  the exposed name \<open>i-output\<close> stores the URL under the key \<open>i-output\<close> and leaves
  the key \<open>output\<close> unset, and the option handler called with \<open>x-quiet\<close> stores the
  value under \<open>x-quiet\<close> and leaves \<open>quiet\<close> unset.
\<close>

theorem handlers_keep_prefix:
  "fst (inputFunc unix_sys newJobRequest (test_link False []) ''i-output'' ''a'') = Return None
   \<and> Inputs (snd (inputFunc unix_sys newJobRequest (test_link False []) ''i-output'' ''a''))
        ''i-output'' = Some [opaqueURL ''a'']
   \<and> Inputs (snd (inputFunc unix_sys newJobRequest (test_link False []) ''i-output'' ''a''))
        ''output'' = None
   \<and> fst (optionFunc unix_sys newJobRequest (test_link False []) XsBoolean False ''x-quiet'' ''1'')
        = Return None
   \<and> Options (snd (optionFunc unix_sys newJobRequest (test_link False []) XsBoolean False
                     ''x-quiet'' ''1'')) ''x-quiet'' = Some [''true'']
   \<and> Options (snd (optionFunc unix_sys newJobRequest (test_link False []) XsBoolean False
                     ''x-quiet'' ''1'')) ''quiet'' = None"
  by (simp add: inputFunc_def optionFunc_def HasPrefix_def getBasePath_def test_link_def
      pathToUri_def ToSlash_def unix_sys_def newJobRequest_def map_append_def slice_of_def
      ParseBool_def FormatBool_def)

section \<open>Validation against a choice\<close>

lemma pathToUri_not_nil: "pathToUri s path basePath \<noteq> (None, None, x)"
  by (auto simp add: pathToUri_def Let_def split: list.splits sum.splits stat_result.splits)

text \<open>Without a panic of \<open>getBasePath\<close> the validation returns.\<close>

lemma validate_returns:
  assumes "getBasePath s (IsLocal l) = Return b"
  shows "\<exists>r e. validateOption s val t l = Return (r, e)"
    and "\<exists>r e. choice_loop s val vs l acc = Return (r, e)"
  using assms
proof (induction s val t l and s val vs l acc rule: validateOption_choice_loop.induct)
  case (4 s val l)
  then show ?case 
    using pathToUri_not_nil[of s val b]
    by (auto split: prod.splits option.splits)
next
  case (5 s val l)
  then show ?case
    using pathToUri_not_nil[of s val b]
    by (auto split: prod.splits option.splits)
next
  case (7 s val vs l)
  then show ?case by (auto split: prod.splits option.splits outcome.splits)
next
  case (11 s val v vs l acc)
  then show ?case by (auto split: prod.splits option.splits outcome.splits)
qed (auto split: sum.splits option.splits)

lemma validateOption_Choice_ok:
  "validateOption s val (Choice vs) l = Return (r, None)
     \<longleftrightarrow> choice_loop s val vs l (val, None) = Return (r, None)"
  by (auto split: outcome.splits prod.splits option.splits)

lemma validateOption_Choice_err:
  "validateOption s val (Choice vs) l = Return (r, Some e')
     \<longleftrightarrow> (\<exists>e. choice_loop s val vs l (val, None) = Return (r, Some e))
         \<and> e' = ''does not match '' @ typeToString s (Choice vs)"
  by (auto split: outcome.splits prod.splits option.splits)

lemma choice_loop_ok:
  "choice_loop s val vs l acc = Return (r, None)
     \<longleftrightarrow> (vs = [] \<and> acc = (r, None))
         \<or> (\<exists>pre v post. vs = pre @ v # post
               \<and> (\<forall>u\<in>set pre. \<exists>r' e. validateOption s val u l = Return (r', Some e))
               \<and> validateOption s val v l = Return (r, None))"
proof (induction vs arbitrary: acc)
  case Nil
  show ?case by simp
next
  case (Cons v vs)
  show ?case
  proof (cases "validateOption s val v l")
    case (Panic p)
    then show ?thesis
      by (auto simp add: Cons_eq_append_conv)
  next
    case (Return ra)
    obtain r' eo where ra: "ra = (r', eo)" by (cases ra)
    show ?thesis
    proof (cases eo)
      case None
      have lhs: "choice_loop s val (v # vs) l acc = Return (r', None)"
        using Return ra None by simp
      have "(\<exists>pre w post. v # vs = pre @ w # post
               \<and> (\<forall>u\<in>set pre. \<exists>r' e. validateOption s val u l = Return (r', Some e))
               \<and> validateOption s val w l = Return (r, None)) \<longleftrightarrow> r = r'"
        (is "?L \<longleftrightarrow> _")
      proof
        assume ?L
        then obtain pre w post where d: "v # vs = pre @ w # post"
          and f: "\<forall>u\<in>set pre. \<exists>r' e. validateOption s val u l = Return (r', Some e)"
          and w: "validateOption s val w l = Return (r, None)" by blast
        show "r = r'"
        proof (cases pre)
          case Nil
          with d w Return ra None show ?thesis by simp
        next
          case (Cons x xs)
          with d f Return ra None show ?thesis by simp
        qed
      next
        assume "r = r'"
        then have "v # vs = [] @ v # vs \<and> validateOption s val v l = Return (r, None)"
          using Return ra None by simp
        then show ?L by fastforce
      qed
      with lhs show ?thesis by auto
    next
      case (Some e)
      have "choice_loop s val (v # vs) l acc = choice_loop s val vs l (r', Some e)"
        using Return ra Some by simp
      moreover have "(\<exists>pre w post. v # vs = pre @ w # post
               \<and> (\<forall>u\<in>set pre. \<exists>r' e. validateOption s val u l = Return (r', Some e))
               \<and> validateOption s val w l = Return (r, None))
          \<longleftrightarrow> (\<exists>pre w post. vs = pre @ w # post
               \<and> (\<forall>u\<in>set pre. \<exists>r' e. validateOption s val u l = Return (r', Some e))
               \<and> validateOption s val w l = Return (r, None))"
        (is "?L \<longleftrightarrow> ?R")
      proof
        assume ?L
        then obtain pre w post where d: "v # vs = pre @ w # post"
          and f: "\<forall>u\<in>set pre. \<exists>r' e. validateOption s val u l = Return (r', Some e)"
          and w: "validateOption s val w l = Return (r, None)" by blast
        from d w Return ra Some obtain pre' where "pre = v # pre'" "vs = pre' @ w # post"
          by (cases pre) auto
        with f w show ?R by auto
      next
        assume ?R
        then obtain pre w post where d: "vs = pre @ w # post"
          and f: "\<forall>u\<in>set pre. \<exists>r' e. validateOption s val u l = Return (r', Some e)"
          and w: "validateOption s val w l = Return (r, None)" by blast
        from d have "v # vs = (v # pre) @ w # post" by simp
        moreover from f Return ra Some
        have "\<forall>u\<in>set (v # pre). \<exists>r' e. validateOption s val u l = Return (r', Some e)" by simp
        ultimately show ?L using w by blast
      qed
      ultimately show ?thesis using Cons.IH [of "(r', Some e)"] by simp
    qed
  qed
qed

lemma choice_loop_all_fail:
  assumes "\<forall>u\<in>set vs. \<exists>r' e. validateOption s val u l = Return (r', Some e)"
    and "vs \<noteq> [] \<or> snd acc \<noteq> None"
  shows "\<exists>r e. choice_loop s val vs l acc = Return (r, Some e)"
  using assms
proof (induction vs arbitrary: acc)
  case Nil
  then show ?case by (cases acc) auto
next
  case (Cons v vs)
  then obtain r' e where "validateOption s val v l = Return (r', Some e)" by auto
  with Cons show ?case by auto
qed

text \<open>
  C5, as the code has it. For a choice with at least one variant, and when the working
  directory can be read (so that no variant panics): the validation succeeds if and only
  if some variant validates the value; a successful result is the result of the first
  variant, in the declared order, that validates the value; and when no variant does,
  the error is the one message \<open>does not match\<close> followed by the printed choice type.
\<close>

theorem validateOption_Choice:
  assumes ne: "vs \<noteq> []"
    and np: "getBasePath s (IsLocal l) = Return b"
  shows "((\<exists>r. validateOption s val (Choice vs) l = Return (r, None))
            \<longleftrightarrow> (\<exists>v\<in>set vs. \<exists>r. validateOption s val v l = Return (r, None)))
       \<and> (\<forall>r. validateOption s val (Choice vs) l = Return (r, None) \<longrightarrow>
             (\<exists>pre v post. vs = pre @ v # post
                \<and> (\<forall>u\<in>set pre. \<nexists>r'. validateOption s val u l = Return (r', None))
                \<and> validateOption s val v l = Return (r, None)))
       \<and> ((\<nexists>v r. v \<in> set vs \<and> validateOption s val v l = Return (r, None)) \<longrightarrow>
             (\<exists>r. validateOption s val (Choice vs) l
                     = Return (r, Some (''does not match '' @ typeToString s (Choice vs)))))"
proof -
  have fails: "\<And>u. (\<nexists>r'. validateOption s val u l = Return (r', None))
                 \<longleftrightarrow> (\<exists>r' e. validateOption s val u l = Return (r', Some e))"
    using validate_returns(1) [OF np, of val _] by (metis not_Some_eq option.distinct(1) outcome.inject prod.inject)
  have dec: "\<And>r. validateOption s val (Choice vs) l = Return (r, None)
     \<longleftrightarrow> (\<exists>pre v post. vs = pre @ v # post
               \<and> (\<forall>u\<in>set pre. \<nexists>r'. validateOption s val u l = Return (r', None))
               \<and> validateOption s val v l = Return (r, None))"
    using ne by (simp only: validateOption_Choice_ok choice_loop_ok fails) simp
  have c1: "(\<exists>r. validateOption s val (Choice vs) l = Return (r, None))
            \<longleftrightarrow> (\<exists>v\<in>set vs. \<exists>r. validateOption s val v l = Return (r, None))"
  proof
    assume "\<exists>r. validateOption s val (Choice vs) l = Return (r, None)"
    then show "\<exists>v\<in>set vs. \<exists>r. validateOption s val v l = Return (r, None)"
      unfolding dec by auto
  next
    assume "\<exists>v\<in>set vs. \<exists>r. validateOption s val v l = Return (r, None)"
    from split_list_first_prop [OF this]
    obtain pre v post where "vs = pre @ v # post"
      "\<exists>r. validateOption s val v l = Return (r, None)"
      "\<forall>u\<in>set pre. \<not> (\<exists>r. validateOption s val u l = Return (r, None))" by blast
    then show "\<exists>r. validateOption s val (Choice vs) l = Return (r, None)"
      unfolding dec by blast
  qed
  have c3: "(\<nexists>v r. v \<in> set vs \<and> validateOption s val v l = Return (r, None)) \<longrightarrow>
             (\<exists>r. validateOption s val (Choice vs) l
                     = Return (r, Some (''does not match '' @ typeToString s (Choice vs))))"
  proof
    assume "\<nexists>v r. v \<in> set vs \<and> validateOption s val v l = Return (r, None)"
    then have "\<forall>u\<in>set vs. \<exists>r' e. validateOption s val u l = Return (r', Some e)"
      using fails by blast
    from choice_loop_all_fail [OF this, of "(val, None)"] ne
    obtain r e where "choice_loop s val vs l (val, None) = Return (r, Some e)" by blast
    then have "validateOption s val (Choice vs) l
                 = Return (r, Some (''does not match '' @ typeToString s (Choice vs)))"
      by simp
    then show "\<exists>r. validateOption s val (Choice vs) l
                     = Return (r, Some (''does not match '' @ typeToString s (Choice vs)))"
      by blast
  qed
  from c1 dec c3 show ?thesis by blast
qed

theorem validateOption_Choice_witness:
  "validateOption unix_sys ''b'' (Choice [Value ''a'', Value ''b'']) (test_link False [])
     = Return (''b'', None)
   \<and> validateOption unix_sys ''1'' (Choice [Value ''a'', XsBoolean, Value ''1'']) (test_link False [])
     = Return (''true'', None)
   \<and> validateOption unix_sys ''c'' (Choice [Value ''a'', Value ''b'']) (test_link False [])
     = Return (''c'', Some ''does not match one of a b '')"
proof -
  have ne: "[Value ''a'', Value ''b''] \<noteq> []" by simp
  have np: "getBasePath unix_sys (IsLocal (test_link False [])) = Return []"
    by (simp add: getBasePath_def test_link_def)
  show ?thesis
    using validateOption_Choice [OF ne np, of "''b''"]
    by (simp add: ParseBool_def FormatBool_def unix_sys_def)
qed

text \<open>A choice without variants accepts every value.\<close>

theorem validateOption_Choice_empty:
  "validateOption unix_sys ''x'' (Choice []) (test_link False []) = Return (''x'', None)"
  by simp

section \<open>Sequences of option values\<close>

lemma slice_of_map_append: "slice_of (map_append m k n) k = slice_of m k @ [n]"
  by (simp add: map_append_def slice_of_def)

lemma map_append_upd: "(map_append m k n)(k \<mapsto> x) = m(k \<mapsto> x)"
  by (simp add: map_append_def)

lemma foldl_map_append:
  "foldl (\<lambda>m v. map_append m k v) m ns
     = (if ns = [] then m else m(k \<mapsto> slice_of m k @ ns))"
proof (induction ns arbitrary: m)
  case Nil
  show ?case by simp
next
  case (Cons n ns)
  show ?case
  proof (cases ns)
    case Nil
    then show ?thesis by (simp add: map_append_def)
  next
    case (Cons n' ns')
    then show ?thesis
      using Cons.IH [of "map_append m k n"]
      by (simp add: slice_of_map_append map_append_upd)
  qed
qed

lemma option_loop_prefix:
  assumes "list_all2 (\<lambda>v v'. validateOption s v t l = Return (v', None)) pre normed"
  shows "option_loop s l t k (pre @ rest) rq
           = option_loop s l t k rest
               (rq\<lparr>Options := foldl (\<lambda>m v. map_append m k v) (Options rq) normed\<rparr>)"
  using assms
proof (induction pre normed arbitrary: rq rule: list_all2_induct)
  case Nil
  show ?case by simp
next
  case (Cons v pre v' normed)
  then show ?case by simp
qed

text \<open>
  The sequence branch on every name for which the handler does not panic. The value is
  split at the commas and the elements are validated from left to right, each result
  being appended under the name of the option as soon as it is validated. When the
  elements \<open>pre\<close> validate to \<open>normed\<close> and the next element fails, the handler returns
  the validation error of that element and the request holds the old values followed by
  \<open>normed\<close>; when all elements validate, the handler returns no error and the request
  holds the old values followed by all the results.
\<close>

lemma optionFunc_sequence:
  assumes nm: "HasPrefix ''x-'' name \<longrightarrow> 2 \<le> length name"
    and ok: "list_all2 (\<lambda>v v'. validateOption s v t l = Return (v', None)) pre normed"
  shows "(Split val CHR '','' = pre @ bad # post \<and> validateOption s bad t l = Return (r, Some e)
            \<longrightarrow> optionFunc s rq l t True name val
                  = (Return (Some (validationError
                                     (if HasPrefix ''x-'' name then drop 2 name else name) r (Some e))),
                     rq\<lparr>Options :=
                          (if normed = [] then Options rq
                           else (Options rq)
                                  ((if HasPrefix ''x-'' name then drop 2 name else name)
                                     \<mapsto> slice_of (Options rq)
                                           (if HasPrefix ''x-'' name then drop 2 name else name)
                                         @ normed))\<rparr>))
       \<and> (Split val CHR '','' = pre
            \<longrightarrow> optionFunc s rq l t True name val
                  = (Return None,
                     rq\<lparr>Options :=
                          (if normed = [] then Options rq
                           else (Options rq)
                                  ((if HasPrefix ''x-'' name then drop 2 name else name)
                                     \<mapsto> slice_of (Options rq)
                                           (if HasPrefix ''x-'' name then drop 2 name else name)
                                         @ normed))\<rparr>))"
proof -
  let ?k = "if HasPrefix ''x-'' name then drop 2 name else name"
  have f: "optionFunc s rq l t True name val = option_loop s l t ?k (Split val CHR '','') rq"
    using nm by (cases "HasPrefix ''x-'' name") (simp_all add: optionFunc_def not_less)
  have a: "\<And>rest. option_loop s l t ?k (pre @ rest) rq
           = option_loop s l t ?k rest
               (rq\<lparr>Options := (if normed = [] then Options rq
                                else (Options rq)(?k \<mapsto> slice_of (Options rq) ?k @ normed))\<rparr>)"
    using option_loop_prefix [OF ok, of ?k _ rq] by (simp only: foldl_map_append)
  show ?thesis
    using a [of "bad # post"] a [of "[]"] by (simp add: f)
qed

lemma optionFunc_sequence_example:
  "fst (optionFunc unix_sys newJobRequest (test_link False []) XsBoolean True ''flag'' ''1,f,maybe,t'')
     = Return (Some (validationError ''flag'' ''maybe''
         (Some (''does not match boolean: strconv.ParseBool: parsing '' @ plain_Quote ''maybe''
                @ '': invalid syntax''))))
   \<and> Options (snd (optionFunc unix_sys newJobRequest (test_link False []) XsBoolean True ''flag''
                     ''1,f,maybe,t'')) ''flag'' = Some [''true'', ''false'']
   \<and> fst (optionFunc unix_sys newJobRequest (test_link False []) XsBoolean True ''flag'' ''1,f'')
     = Return None
   \<and> Options (snd (optionFunc unix_sys newJobRequest (test_link False []) XsBoolean True ''flag''
                     ''1,f'')) ''flag'' = Some [''true'', ''false'']"
proof -
  let ?l = "test_link False []"
  have nm: "HasPrefix ''x-'' ''flag'' \<longrightarrow> 2 \<le> length ''flag''" by simp
  have ok: "list_all2 (\<lambda>v v'. validateOption unix_sys v XsBoolean ?l = Return (v', None))
              [''1'', ''f''] [''true'', ''false'']"
    by (simp add: ParseBool_def FormatBool_def)
  have sp1: "Split ''1,f,maybe,t'' CHR '','' = [''1'', ''f''] @ ''maybe'' # [''t'']" by simp
  have sp2: "Split ''1,f'' CHR '','' = [''1'', ''f'']" by simp
  have bad: "validateOption unix_sys ''maybe'' XsBoolean ?l
               = Return (''maybe'', Some (''does not match boolean: strconv.ParseBool: parsing ''
                    @ plain_Quote ''maybe'' @ '': invalid syntax''))"
    by (simp add: ParseBool_def unix_sys_def)
  have np: "\<not> HasPrefix ''x-'' ''flag''" by (simp add: HasPrefix_def)
  show ?thesis
    using optionFunc_sequence [OF nm ok, of "''1,f,maybe,t''" "''maybe''" "[''t'']" _ _ newJobRequest]
          optionFunc_sequence [OF nm ok, of "''1,f''" "''maybe''" "[''t'']" _ _ newJobRequest]
          sp1 sp2 bad np
    by (simp add: newJobRequest_def slice_of_def)
qed

text \<open>
  C6 says that for every sequence option the validator is applied to each element in
  order and the validated elements are appended, also those before a failing one. On the
  code this fails for the option named \<open>x\<close>: \<open>getFlagName\<close> exposes it under its own
  name, the swapped test of the prefix holds for it, and \<^verbatim>\<open>name[2:]\<close> panics
  before any element is validated or appended.
\<close>

theorem optionFunc_sequence_panics:
  "getFlagName ''x'' ''x-'' [] = ''x''
   \<and> (case fst (optionFunc unix_sys newJobRequest (test_link False []) XsBoolean True ''x'' ''1,f'')
       of Panic p \<Rightarrow> True | Return e \<Rightarrow> False)
   \<and> Options (snd (optionFunc unix_sys newJobRequest (test_link False []) XsBoolean True ''x''
                     ''1,f'')) ''x'' = None"
  by (simp add: getFlagName_def flagsToString_def commonFlags_def optionFunc_def HasPrefix_def
      newJobRequest_def)

end
